theory Spec2Isabelle
  imports Main
begin

section \<open>Exceptions\<close>

text \<open>
  The exception classes that \<^verbatim>\<open>models.py\<close> names in an \<^verbatim>\<open>except\<close> clause or can
  raise itself. \<open>OtherError\<close> stands for an exception of any class that no clause of the
  module catches. An exception that leaves a function is a value of the result.
\<close>

datatype exn = OSError | IOError | ValueError | AttributeError | KeyError | IndexError
  | OtherError

section \<open>Names and the two kinds of predicate of the default registry\<close>

text \<open>
  File names are byte strings. \<^verbatim>\<open>str.lower\<close> and \<^verbatim>\<open>re.IGNORECASE\<close> fold the letters
  \<^verbatim>\<open>A\<close> to \<^verbatim>\<open>Z\<close> only and leave every other byte alone.
\<close>

definition lower_char :: "char \<Rightarrow> char" where
  "lower_char c =
     (let n = (of_char c :: nat) in if 65 \<le> n \<and> n \<le> 90 then char_of (n + 32) else c)"

definition lower :: "string \<Rightarrow> string" where
  "lower s = map lower_char s"

definition endswith :: "string \<Rightarrow> string \<Rightarrow> bool" where
  "endswith s suffix =
     (length suffix \<le> length s \<and> drop (length s - length suffix) s = suffix)"

text \<open>
  The regular expressions of the registry use literals, concatenation, alternation,
  \<^verbatim>\<open>?\<close>, a character set and \<^verbatim>\<open>$\<close>. \<open>rmatch r s\<close> lists what is left of \<open>s\<close> after
  each way of matching \<open>r\<close> at its front, ignoring case; \<^verbatim>\<open>$\<close> matches at the end of
  the string and also just before a newline that ends the string, as Python's does.
  Only the truth value of \<^verbatim>\<open>search\<close> is used by the module: a match exists at some
  start position.
\<close>

datatype regex =
    Str string
  | Cls string
  | Seq regex regex
  | Alt regex regex
  | Opt regex
  | Eol

fun rmatch :: "regex \<Rightarrow> string \<Rightarrow> string list" where
  "rmatch (Str cs) s =
     (if length cs \<le> length s \<and> lower (take (length cs) s) = lower cs
      then [drop (length cs) s] else [])"
| "rmatch (Cls cs) s =
     (case s of [] \<Rightarrow> [] | x # xs \<Rightarrow> if lower_char x \<in> set (lower cs) then [xs] else [])"
| "rmatch (Seq a b) s = concat (map (rmatch b) (rmatch a s))"
| "rmatch (Alt a b) s = rmatch a s @ rmatch b s"
| "rmatch (Opt a) s = rmatch a s @ [s]"
| "rmatch Eol s = (if s = [] \<or> s = [CHR 0x0A] then [s] else [])"

definition re_search :: "regex \<Rightarrow> string \<Rightarrow> bool" where
  "re_search r s = list_ex (\<lambda>i. rmatch r (drop i s) \<noteq> []) [0 ..< Suc (length s)]"

fun alts :: "regex list \<Rightarrow> regex" where
  "alts [] = Cls []"
| "alts [r] = r"
| "alts (r # rs) = Alt r (alts rs)"

text \<open>\<^verbatim>\<open>\.(a|b|...)$\<close>: a dot, one of the alternatives, the end.\<close>

definition dot_ext :: "regex list \<Rightarrow> regex" where
  "dot_ext rs = Seq (Str ''.'') (Seq (alts rs) Eol)"

section \<open>The type registry and the classifier\<close>

text \<open>
  An entry of \<^verbatim>\<open>MediaFileBase.filetypes\<close> is a triple of key, label and test. The tests
  are total on names.
\<close>

type_synonym filetype = "string \<times> string \<times> (string \<Rightarrow> bool)"

definition type_key :: "filetype \<Rightarrow> string" where
  "type_key t = fst t"

definition type_test :: "filetype \<Rightarrow> string \<Rightarrow> bool" where
  "type_test t = snd (snd t)"

text \<open>The \<^verbatim>\<open>for\<close> loop of \<^verbatim>\<open>determine_file_type\<close>: the key returned inside it, if any.\<close>

fun first_match :: "filetype list \<Rightarrow> string \<Rightarrow> string option" where
  "first_match [] name = None"
| "first_match (t # ts) name =
     (if type_test t name then Some (type_key t) else first_match ts name)"

text \<open>
  After the loop comes \<^verbatim>\<open>self.filetypes[-1][0]\<close>, which raises \<^verbatim>\<open>IndexError\<close> on the
  empty list.
\<close>

definition determine_file_type :: "filetype list \<Rightarrow> string \<Rightarrow> exn + string" where
  "determine_file_type filetypes name =
     (case first_match filetypes name of
        Some k \<Rightarrow> Inr k
      | None \<Rightarrow> (if filetypes = [] then Inl IndexError else Inr (type_key (last filetypes))))"

text \<open>
  The class attributes that \<^verbatim>\<open>register_filetypes\<close> maintains. \<^verbatim>\<open>dict(choices)\<close> keeps,
  for a key that occurs twice, the label that comes last.
\<close>

record registry =
  filetypes :: "filetype list"
  filetypes_dict :: "string \<rightharpoonup> string"
  choices :: "(string \<times> string) list"

definition empty_registry :: registry where
  "empty_registry = \<lparr>filetypes = [], filetypes_dict = Map.empty, choices = []\<rparr>"

definition register_filetypes :: "filetype list \<Rightarrow> registry \<Rightarrow> registry" where
  "register_filetypes types cls =
     (let fts = types @ filetypes cls;
          chs = map (\<lambda>t. (fst t, fst (snd t))) fts
      in \<lparr>filetypes = fts, filetypes_dict = map_of (rev chs), choices = chs\<rparr>)"

text \<open>The call at the end of the module, on the class as it is declared.\<close>

definition default_types :: "filetype list" where
  "default_types =
    [(''image'', ''Image'', re_search (dot_ext
        [Str ''bmp'', Seq (Str ''jp'') (Seq (Opt (Str ''e'')) (Str ''g'')), Str ''jp2'',
         Str ''jxr'', Str ''gif'', Str ''png'', Seq (Str ''tif'') (Opt (Str ''f''))])),
     (''video'', ''Video'', re_search (dot_ext
        [Str ''mov'', Seq (Str ''m'') (Seq (Cls ''14'') (Str ''v'')), Str ''mp4'',
         Str ''avi'', Seq (Str ''mp'') (Seq (Opt (Str ''e'')) (Str ''g'')), Str ''qt'',
         Str ''ogv'', Str ''wmv''])),
     (''audio'', ''Audio'', re_search (dot_ext
        [Str ''au'', Str ''mp3'', Str ''m4a'', Str ''wma'', Str ''oga'', Str ''ram'',
         Str ''wav''])),
     (''pdf'', ''PDF document'', \<lambda>f. endswith (lower f) ''.pdf''),
     (''swf'', ''Flash'', \<lambda>f. endswith (lower f) ''.swf''),
     (''txt'', ''Text'', \<lambda>f. endswith (lower f) ''.txt''),
     (''rtf'', ''Rich Text'', \<lambda>f. endswith (lower f) ''.rtf''),
     (''zip'', ''Zip archive'', \<lambda>f. endswith (lower f) ''.zip''),
     (''doc'', ''Microsoft Word'', re_search (dot_ext [Seq (Str ''doc'') (Opt (Str ''x''))])),
     (''xls'', ''Microsoft Excel'', re_search (dot_ext [Seq (Str ''xls'') (Opt (Str ''x''))])),
     (''ppt'', ''Microsoft PowerPoint'',
        re_search (dot_ext [Seq (Str ''ppt'') (Opt (Str ''x''))])),
     (''other'', ''Binary'', \<lambda>f. True)]"

definition default_registry :: registry where
  "default_registry = register_filetypes default_types empty_registry"

section \<open>Category\<close>

record category =
  title :: string
  parent_id :: "nat option"
  slug :: string

text \<open>
  Modelled from the spec: \<^verbatim>\<open>slugify\<close> is imported from the web framework
  (\<^verbatim>\<open>django.template.defaultfilters\<close>) and is not among the sources; the spec fixes its
  value on the title \<^verbatim>\<open>Test Category\<close>. The model is the framework's algorithm on byte
  strings: drop the bytes outside ASCII, drop every character that is not a word
  character, white space or a hyphen, strip white space from both ends, fold to lower
  case, and replace each run of hyphens and white space by one hyphen.
\<close>

definition is_space :: "char \<Rightarrow> bool" where
  "is_space c = (c \<in> set [CHR '' '', CHR 0x09, CHR 0x0A, CHR 0x0B, CHR 0x0C, CHR 0x0D])"

definition is_word :: "char \<Rightarrow> bool" where
  "is_word c =
     (let n = (of_char c :: nat)
      in (48 \<le> n \<and> n \<le> 57) \<or> (65 \<le> n \<and> n \<le> 90) \<or> (97 \<le> n \<and> n \<le> 122) \<or> n = 95)"

definition strip :: "string \<Rightarrow> string" where
  "strip s = rev (dropWhile is_space (rev (dropWhile is_space s)))"

text \<open>\<open>in_run\<close> says that the character before was a hyphen or white space.\<close>

fun hyphenate :: "bool \<Rightarrow> string \<Rightarrow> string" where
  "hyphenate in_run [] = []"
| "hyphenate in_run (c # cs) =
     (if c = CHR ''-'' \<or> is_space c
      then (if in_run then hyphenate True cs else CHR ''-'' # hyphenate True cs)
      else c # hyphenate False cs)"

definition slugify :: "string \<Rightarrow> string" where
  "slugify value =
     hyphenate False (lower (strip
       (filter (\<lambda>c. is_word c \<or> is_space c \<or> c = CHR ''-'')
          (filter (\<lambda>c. (of_char c :: nat) < 128) value))))"

text \<open>
  \<^verbatim>\<open>Category.save\<close>. The slug function and the outcome of the inherited \<^verbatim>\<open>save\<close> (an
  exception of the persistence layer, or none) are parameters. The result is that
  outcome and the object as the call leaves it.
\<close>

definition Category_save ::
  "(string \<Rightarrow> string) \<Rightarrow> exn option \<Rightarrow> category \<Rightarrow> exn option \<times> category" where
  "Category_save slugify_fn super_save c =
     (let c' = (if slug c = [] then c\<lparr>slug := slugify_fn (title c)\<rparr> else c)
      in (super_save, c'))"

section \<open>MediaFile\<close>

text \<open>
  The fields of \<^verbatim>\<open>MediaFileBase\<close> that \<^verbatim>\<open>save\<close> reads or writes. \<open>file_name\<close> is
  \<^verbatim>\<open>self.file.name\<close>; the file field is true exactly when its name is not empty.
  \<open>original_file_name\<close> is the attribute \<^verbatim>\<open>_original_file_name\<close>, \<open>None\<close> when the
  constructor did not set it.
\<close>

record mediafile =
  obj_id :: "nat option"
  file_name :: string
  type :: string
  created :: "nat option"
  copyright :: string
  file_size :: "int option"
  original_file_name :: "string option"

definition init :: "mediafile \<Rightarrow> mediafile" where
  "init m0 =
     (if file_name m0 \<noteq> [] then m0\<lparr>original_file_name := Some (file_name m0)\<rparr>
      else m0\<lparr>original_file_name := None\<rparr>)"

text \<open>
  What \<^verbatim>\<open>save\<close> acts on outside the object. \<open>storage\<close> is the blob store behind the
  storage interface, addressed by name, and \<open>deleted\<close> lists the names it was asked to
  delete. \<open>written\<close> lists the image files that the image library wrote, by path.
  \<open>logged\<close> lists the exceptions reported through \<^verbatim>\<open>logging.error\<close>.
\<close>

record ('b, 'i) world =
  storage :: "string \<rightharpoonup> 'b"
  deleted :: "string list"
  written :: "(string \<times> 'i) list"
  logged :: "exn list"

text \<open>
  Modelled from the spec: the storage backend is not among the sources; the spec calls
  it a name-addressed blob store with a delete operation. Deleting removes the name.
\<close>

definition storage_delete :: "string \<Rightarrow> ('b, 'i) world \<Rightarrow> ('b, 'i) world" where
  "storage_delete name w =
     w\<lparr>storage := (storage w)(name := None), deleted := deleted w @ [name]\<rparr>"

text \<open>
  What the calls into the framework and the image library return during one \<^verbatim>\<open>save\<close>:
  the clock, \<^verbatim>\<open>self.file.size\<close>, \<^verbatim>\<open>self.file.path\<close>, \<^verbatim>\<open>Image.open\<close> on the field file and
  on a path, \<^verbatim>\<open>image._getexif()\<close> (\<open>None\<close> or a dictionary from tags to values),
  \<^verbatim>\<open>image.rotate\<close>, \<^verbatim>\<open>image.save\<close>, and the inherited \<^verbatim>\<open>save\<close> followed by
  \<^verbatim>\<open>purge_translation_cache\<close>.
\<close>

record 'i env =
  now :: nat
  size_of_file :: "exn + int"
  path_of_file :: "exn + string"
  open_file :: "exn + 'i"
  open_path :: "string \<Rightarrow> exn + 'i"
  getexif :: "'i \<Rightarrow> exn + (nat \<times> int) list option"
  rotate :: "'i \<Rightarrow> nat \<Rightarrow> exn + 'i"
  image_save :: "'i \<Rightarrow> string \<Rightarrow> exn option"
  super_save :: "exn option"

text \<open>Lines 169 and 170. An id counts as absent when it is \<^verbatim>\<open>None\<close> or zero.\<close>

definition set_created :: "'i env \<Rightarrow> mediafile \<Rightarrow> mediafile" where
  "set_created e m =
     (if (obj_id m = None \<or> obj_id m = Some 0) \<and> created m = None
      then m\<lparr>created := Some (now e)\<rparr> else m)"

text \<open>Lines 173 to 177.\<close>

definition read_size ::
  "'i env \<Rightarrow> mediafile \<times> ('b, 'i) world \<Rightarrow> exn option \<times> mediafile \<times> ('b, 'i) world" where
  "read_size e s =
     (case s of (m, w) \<Rightarrow>
        if file_name m \<noteq> [] then
          (case size_of_file e of
             Inr n \<Rightarrow> (None, m\<lparr>file_size := Some n\<rparr>, w)
           | Inl x \<Rightarrow>
               if x = OSError \<or> x = IOError \<or> x = ValueError
               then (None, m, w\<lparr>logged := logged w @ [x]\<rparr>)
               else (Some x, m, w))
        else (None, m, w))"

text \<open>Lines 182 to 185.\<close>

definition open_image :: "'i env \<Rightarrow> exn + 'i" where
  "open_image e =
     (case open_file e of
        Inr img \<Rightarrow> Inr img
      | Inl x \<Rightarrow>
          if x = OSError \<or> x = IOError
          then (case path_of_file e of Inl y \<Rightarrow> Inl y | Inr p \<Rightarrow> open_path e p)
          else Inl x)"

text \<open>Lines 189 to 196; \<^verbatim>\<open>exif = False\<close> is \<open>None\<close> here, both being false.\<close>

definition read_exif :: "'i env \<Rightarrow> 'i \<Rightarrow> exn + (nat \<times> int) list option" where
  "read_exif e img =
     (case getexif e img of
        Inr exif \<Rightarrow> Inr exif
      | Inl x \<Rightarrow> if x = AttributeError \<or> x = IOError \<or> x = KeyError then Inr None else Inl x)"

text \<open>Lines 199 to 206.\<close>

definition exif_rotation :: "(nat \<times> int) list \<Rightarrow> nat" where
  "exif_rotation exif =
     (let orientation = map_of exif 274
      in if orientation = Some 3 then 180
         else if orientation = Some 6 then 270
         else if orientation = Some 8 then 90
         else 0)"

text \<open>
  The body of the outer \<^verbatim>\<open>try\<close>, lines 182 to 209. An image object is always true, a
  dictionary is true when it is not empty.
\<close>

definition process_image :: "'i env \<Rightarrow> ('b, 'i) world \<Rightarrow> exn option \<times> ('b, 'i) world" where
  "process_image e w =
     (case open_image e of
        Inl x \<Rightarrow> (Some x, w)
      | Inr img \<Rightarrow>
          (case read_exif e img of
             Inl x \<Rightarrow> (Some x, w)
           | Inr None \<Rightarrow> (None, w)
           | Inr (Some exif) \<Rightarrow>
               if exif = [] then (None, w)
               else
                 let rotation = exif_rotation exif in
                 if rotation \<noteq> 0 then
                   (case rotate e img rotation of
                      Inl x \<Rightarrow> (Some x, w)
                    | Inr img' \<Rightarrow>
                        (case path_of_file e of
                           Inl x \<Rightarrow> (Some x, w)
                         | Inr p \<Rightarrow>
                             (case image_save e img' p of
                                Some x \<Rightarrow> (Some x, w)
                              | None \<Rightarrow> (None, w\<lparr>written := written w @ [(p, img')]\<rparr>))))
                 else (None, w)))"

text \<open>Lines 180 to 211: the test on the type, the \<^verbatim>\<open>try\<close> and its handler.\<close>

definition detect_image ::
  "filetype list \<Rightarrow> 'i env \<Rightarrow> mediafile \<times> ('b, 'i) world
     \<Rightarrow> exn option \<times> mediafile \<times> ('b, 'i) world" where
  "detect_image fts e s =
     (case s of (m, w) \<Rightarrow>
        if type m = ''image'' then
          (case process_image e w of
             (None, w') \<Rightarrow> (None, m, w')
           | (Some x, w') \<Rightarrow>
               if x = OSError \<or> x = IOError then
                 (case determine_file_type fts ''***'' of
                    Inl y \<Rightarrow> (Some y, m, w')
                  | Inr k \<Rightarrow> (None, m\<lparr>type := k\<rparr>, w'))
               else (Some x, m, w'))
        else (None, m, w))"

text \<open>Lines 213 to 215. The attribute counts when it is set and not empty.\<close>

definition cleanup :: "mediafile \<times> ('b, 'i) world \<Rightarrow> mediafile \<times> ('b, 'i) world" where
  "cleanup s =
     (case s of (m, w) \<Rightarrow>
        (case original_file_name m of
           None \<Rightarrow> (m, w)
         | Some orig \<Rightarrow>
             if orig \<noteq> [] \<and> file_name m \<noteq> orig then (m, storage_delete orig w)
             else (m, w)))"

text \<open>
  \<^verbatim>\<open>MediaFileBase.save\<close>. The result is the exception that left the call, if any, with
  the object and the world as the call leaves them.
\<close>

definition save ::
  "filetype list \<Rightarrow> 'i env \<Rightarrow> mediafile \<Rightarrow> ('b, 'i) world
     \<Rightarrow> exn option \<times> mediafile \<times> ('b, 'i) world" where
  "save fts e m w =
     (let m1 = set_created e m in
      case determine_file_type fts (file_name m1) of
        Inl x \<Rightarrow> (Some x, m1, w)
      | Inr k \<Rightarrow>
          (case read_size e (m1\<lparr>type := k\<rparr>, w) of
             (Some x, s) \<Rightarrow> (Some x, s)
           | (None, s) \<Rightarrow>
               (case detect_image fts e s of
                  (Some x, s') \<Rightarrow> (Some x, s')
                | (None, s') \<Rightarrow> (case cleanup s' of (m', w') \<Rightarrow> (super_save e, m', w')))))"

section \<open>The classifier\<close>

lemma first_match_append:
  "first_match (pre @ ts) name =
     (case first_match pre name of Some k \<Rightarrow> Some k | None \<Rightarrow> first_match ts name)"
  by (induction pre) simp_all

lemma first_match_None_iff:
  "first_match ts name = None \<longleftrightarrow> (\<forall>t\<in>set ts. \<not> type_test t name)"
  by (induction ts) simp_all

lemma first_match_Some_mem:
  "first_match ts name = Some k \<Longrightarrow> \<exists>t\<in>set ts. k = type_key t \<and> type_test t name"
  by (induction ts) (auto split: if_splits)

lemma first_match_split:
  assumes "\<forall>u\<in>set pre. \<not> type_test u name" and "type_test t name"
  shows "first_match (pre @ t # post) name = Some (type_key t)"
proof -
  from assms(1) have "first_match pre name = None"
    by (simp add: first_match_None_iff)
  with assms(2) show ?thesis
    by (simp add: first_match_append)
qed

lemma filetypes_default_registry: "filetypes default_registry = default_types"
  by (simp add: default_registry_def register_filetypes_def empty_registry_def Let_def)

lemma last_default_types: "last default_types = (''other'', ''Binary'', \<lambda>f. True)"
  by (simp add: default_types_def)

text \<open>
  C1. The classifier walks the registry from the front and returns the key of the first
  entry whose test accepts the name: the entries before it reject the name, whatever the
  entries after it do. When no test accepts the name, it returns the key of the last
  entry. In the default registry the last entry has the key \<^verbatim>\<open>other\<close> and a test that
  accepts every name.
\<close>

theorem determine_file_type_first_match:
  "(fts = pre @ t # post \<and> (\<forall>u\<in>set pre. \<not> type_test u name) \<and> type_test t name
      \<longrightarrow> determine_file_type fts name = Inr (type_key t))
   \<and> (fts \<noteq> [] \<and> (\<forall>u\<in>set fts. \<not> type_test u name)
      \<longrightarrow> determine_file_type fts name = Inr (type_key (last fts)))
   \<and> type_key (last (filetypes default_registry)) = ''other''
   \<and> type_test (last (filetypes default_registry)) name"
proof (intro conjI impI)
  assume "fts = pre @ t # post \<and> (\<forall>u\<in>set pre. \<not> type_test u name) \<and> type_test t name"
  then show "determine_file_type fts name = Inr (type_key t)"
    by (simp add: determine_file_type_def first_match_split)
next
  assume "fts \<noteq> [] \<and> (\<forall>u\<in>set fts. \<not> type_test u name)"
  then show "determine_file_type fts name = Inr (type_key (last fts))"
    by (simp add: determine_file_type_def first_match_None_iff [THEN iffD2])
next
  show "type_key (last (filetypes default_registry)) = ''other''"
    by (simp add: filetypes_default_registry last_default_types type_key_def)
next
  show "type_test (last (filetypes default_registry)) name"
    by (simp add: filetypes_default_registry last_default_types type_test_def)
qed

lemma default_types_split:
  "filetypes default_registry = take 3 default_types @ (default_types ! 3) # drop 4 default_types"
  by (simp add: filetypes_default_registry default_types_def)

theorem determine_file_type_first_match_witness:
  "determine_file_type (filetypes default_registry) ''foobar.PDF'' = Inr ''pdf''
   \<and> determine_file_type [(''image'', ''Image'', \<lambda>f. endswith (lower f) ''.png'')] ''foobar.PDF''
       = Inr ''image''"
proof -
  have a: "\<forall>u\<in>set (take 3 default_types). \<not> type_test u ''foobar.PDF''"
    by code_simp
  have b: "type_test (default_types ! 3) ''foobar.PDF''"
    by code_simp
  have c: "type_key (default_types ! 3) = ''pdf''"
    by code_simp
  have d: "\<forall>u\<in>set [(''image'', ''Image'', \<lambda>f. endswith (lower f) ''.png'')].
             \<not> type_test u ''foobar.PDF''"
    by code_simp
  from determine_file_type_first_match
    [of "filetypes default_registry" "take 3 default_types" "default_types ! 3"
        "drop 4 default_types" "''foobar.PDF''"]
    default_types_split a b c
  have "determine_file_type (filetypes default_registry) ''foobar.PDF'' = Inr ''pdf''"
    by simp
  moreover from determine_file_type_first_match
    [of "[(''image'', ''Image'', \<lambda>f. endswith (lower f) ''.png'')]" "[]" "(''x'', ''x'', \<lambda>f. True)" "[]" "''foobar.PDF''"] d
  have "determine_file_type [(''image'', ''Image'', \<lambda>f. endswith (lower f) ''.png'')]
          ''foobar.PDF'' = Inr ''image''"
    by (simp add: type_key_def)
  ultimately show ?thesis by simp
qed

text \<open>
  C10. On a registry that is not empty the classifier returns, for every name, the key
  of an entry of the registry. On the empty registry the index \<^verbatim>\<open>[-1]\<close> after the loop
  has nothing to read and the call raises \<^verbatim>\<open>IndexError\<close>.
\<close>

theorem determine_file_type_total:
  "(fts \<noteq> [] \<longrightarrow> (\<exists>t\<in>set fts. determine_file_type fts name = Inr (type_key t)))
   \<and> determine_file_type [] name = Inl IndexError"
proof (intro conjI impI)
  assume ne: "fts \<noteq> []"
  show "\<exists>t\<in>set fts. determine_file_type fts name = Inr (type_key t)"
  proof (cases "first_match fts name")
    case None
    with ne have "determine_file_type fts name = Inr (type_key (last fts))"
      by (simp add: determine_file_type_def)
    moreover from ne have "last fts \<in> set fts" by simp
    ultimately show ?thesis by blast
  next
    case (Some k)
    then obtain t where "t \<in> set fts" "k = type_key t"
      using first_match_Some_mem by blast
    with Some show ?thesis
      by (auto simp: determine_file_type_def)
  qed
next
  show "determine_file_type [] name = Inl IndexError"
    by (simp add: determine_file_type_def)
qed

theorem determine_file_type_total_witness:
  "filetypes default_registry \<noteq> []
   \<and> (\<exists>t\<in>set (filetypes default_registry).
         determine_file_type (filetypes default_registry) ''foobar.jgp'' = Inr (type_key t))"
proof -
  have ne: "filetypes default_registry \<noteq> []"
    by (simp add: filetypes_default_registry default_types_def)
  with determine_file_type_total [of "filetypes default_registry" "''foobar.jgp''"]
  show ?thesis by simp
qed

text \<open>The examples of the docstring of \<^verbatim>\<open>determine_file_type\<close>.\<close>

lemma determine_file_type_doctests:
  "determine_file_type (filetypes default_registry) ''foobar.jpg'' = Inr ''image''"
  "determine_file_type (filetypes default_registry) ''foobar.PDF'' = Inr ''pdf''"
  "determine_file_type (filetypes default_registry) ''foobar.jgp'' = Inr ''other''"
  "determine_file_type (filetypes default_registry) ''foobar-jpg'' = Inr ''other''"
  by code_simp+

lemma filetypes_register_filetypes:
  "filetypes (register_filetypes types cls) = types @ filetypes cls"
  by (simp add: register_filetypes_def Let_def)

lemma first_match_cong_tests:
  "\<forall>t\<in>set fts. type_test t n1 = type_test t n2 \<Longrightarrow> first_match fts n1 = first_match fts n2"
  by (induction fts) simp_all

text \<open>
  C6. \<^verbatim>\<open>register_filetypes\<close> puts the new entries in front of the registry. Of two
  entries whose tests both accept a name, the one nearer the front gives the key, and
  when one of the new entries accepts a name the key comes from the new entries,
  whatever the registry held before.
\<close>

theorem register_filetypes_precedence:
  "filetypes (register_filetypes types cls) = types @ filetypes cls
   \<and> (fts = pre @ t # mid @ u # post \<and> (\<forall>x\<in>set pre. \<not> type_test x name)
        \<and> type_test t name \<and> type_test u name
      \<longrightarrow> determine_file_type fts name = Inr (type_key t))
   \<and> (first_match types name = Some k
      \<longrightarrow> determine_file_type (filetypes (register_filetypes types cls)) name = Inr k)"
proof (intro conjI impI)
  show "filetypes (register_filetypes types cls) = types @ filetypes cls"
    by (rule filetypes_register_filetypes)
next
  assume "fts = pre @ t # mid @ u # post \<and> (\<forall>x\<in>set pre. \<not> type_test x name)
        \<and> type_test t name \<and> type_test u name"
  then show "determine_file_type fts name = Inr (type_key t)"
    by (simp add: determine_file_type_def first_match_split)
next
  assume "first_match types name = Some k"
  then show "determine_file_type (filetypes (register_filetypes types cls)) name = Inr k"
    by (simp add: determine_file_type_def filetypes_register_filetypes first_match_append)
qed

theorem register_filetypes_precedence_witness:
  "determine_file_type (filetypes default_registry) ''a.pdf'' = Inr ''pdf''
   \<and> determine_file_type
        (filetypes (register_filetypes
           [(''ebook'', ''E-book'', \<lambda>f. endswith (lower f) ''.pdf'')] default_registry))
        ''a.pdf'' = Inr ''ebook''
   \<and> determine_file_type
        [(''a'', ''A'', \<lambda>f. False), (''b'', ''B'', \<lambda>f. True), (''c'', ''C'', \<lambda>f. True)] ''n''
       = Inr ''b''"
proof -
  have a: "determine_file_type (filetypes default_registry) ''a.pdf'' = Inr ''pdf''"
    by code_simp
  have b: "first_match [(''ebook'', ''E-book'', \<lambda>f. endswith (lower f) ''.pdf'')] ''a.pdf''
             = Some ''ebook''"
    by code_simp
  have c: "determine_file_type
        (filetypes (register_filetypes
           [(''ebook'', ''E-book'', \<lambda>f. endswith (lower f) ''.pdf'')] default_registry))
        ''a.pdf'' = Inr ''ebook''"
    by (rule register_filetypes_precedence
      [of "[(''ebook'', ''E-book'', \<lambda>f. endswith (lower f) ''.pdf'')]" default_registry
          "[]" "[]" "(''x'', ''X'', \<lambda>f. True)" "[]" "(''x'', ''X'', \<lambda>f. True)" "[]"
          "''a.pdf''" "''ebook''", THEN conjunct2, THEN conjunct2, THEN mp, OF b])
  have d: "determine_file_type
        [(''a'', ''A'', \<lambda>f. False), (''b'', ''B'', \<lambda>f. True), (''c'', ''C'', \<lambda>f. True)] ''n''
       = Inr ''b''"
    using register_filetypes_precedence
      [of "[]" default_registry
          "[(''a'', ''A'', \<lambda>f. False), (''b'', ''B'', \<lambda>f. True), (''c'', ''C'', \<lambda>f. True)]"
          "[(''a'', ''A'', \<lambda>f. False)]" "(''b'', ''B'', \<lambda>f. True)" "[]"
          "(''c'', ''C'', \<lambda>f. True)" "[]" "''n''" "''ebook''"]
    by (simp add: type_test_def type_key_def)
  from a c d show ?thesis by simp
qed

text \<open>
  C7. With the default registry \<^verbatim>\<open>foobar.jpg.pdf\<close> is a \<^verbatim>\<open>pdf\<close>. The registry walk
  decides, not the place of an extension in the name: an entry registered in front whose
  test looks for \<^verbatim>\<open>.jpg\<close> anywhere takes the same name, and two names that the tests of
  the registry do not tell apart get the same result.
\<close>

theorem multiple_extensions:
  "determine_file_type (filetypes default_registry) ''foobar.jpg.pdf'' = Inr ''pdf''
   \<and> determine_file_type
        (filetypes (register_filetypes [(''jpeg'', ''JPEG'', re_search (Str ''.jpg''))]
           default_registry))
        ''foobar.jpg.pdf'' = Inr ''jpeg''
   \<and> ((\<forall>t\<in>set fts. type_test t n1 = type_test t n2)
      \<longrightarrow> determine_file_type fts n1 = determine_file_type fts n2)"
proof (intro conjI impI)
  show "determine_file_type (filetypes default_registry) ''foobar.jpg.pdf'' = Inr ''pdf''"
    by code_simp
next
  have "first_match [(''jpeg'', ''JPEG'', re_search (Str ''.jpg''))] ''foobar.jpg.pdf''
          = Some ''jpeg''"
    by code_simp
  then have "first_match ([(''jpeg'', ''JPEG'', re_search (Str ''.jpg''))]
                 @ filetypes default_registry) ''foobar.jpg.pdf'' = Some ''jpeg''"
    by (simp only: first_match_append option.case)
  then show "determine_file_type
        (filetypes (register_filetypes [(''jpeg'', ''JPEG'', re_search (Str ''.jpg''))]
           default_registry))
        ''foobar.jpg.pdf'' = Inr ''jpeg''"
    by (simp only: determine_file_type_def filetypes_register_filetypes option.case)
next
  assume "\<forall>t\<in>set fts. type_test t n1 = type_test t n2"
  then have "first_match fts n1 = first_match fts n2"
    by (rule first_match_cong_tests)
  then show "determine_file_type fts n1 = determine_file_type fts n2"
    by (simp add: determine_file_type_def)
qed

theorem multiple_extensions_witness:
  "list_all (\<lambda>t. type_test t ''foobar.jpg.pdf'' = type_test t ''x.PDF'')
     (filetypes default_registry)
   \<and> determine_file_type (filetypes default_registry) ''foobar.jpg.pdf''
       = determine_file_type (filetypes default_registry) ''x.PDF''"
proof -
  have l: "list_all (\<lambda>t. type_test t ''foobar.jpg.pdf'' = type_test t ''x.PDF'')
     (filetypes default_registry)"
    by code_simp
  then have h: "\<forall>t\<in>set (filetypes default_registry).
       type_test t ''foobar.jpg.pdf'' = type_test t ''x.PDF''"
    by (simp add: list_all_iff)
  have e: "determine_file_type (filetypes default_registry) ''foobar.jpg.pdf''
       = determine_file_type (filetypes default_registry) ''x.PDF''"
    by (rule multiple_extensions
      [of "filetypes default_registry" "''foobar.jpg.pdf''" "''x.PDF''",
       THEN conjunct2, THEN conjunct2, THEN mp, OF h])
  from l e show ?thesis by (rule conjI)
qed

section \<open>Saving a category\<close>

text \<open>
  C9. Saving a category whose slug is empty sets the slug to the slug function of the
  title, which for the title \<^verbatim>\<open>Test Category\<close> is \<^verbatim>\<open>test-category\<close>; saving a category
  that has a slug leaves the whole object as it is.
\<close>

theorem Category_save_slug:
  "(slug c = [] \<longrightarrow> slug (snd (Category_save slugify_fn outcome c)) = slugify_fn (title c))
   \<and> (slug c \<noteq> [] \<longrightarrow> snd (Category_save slugify_fn outcome c) = c)
   \<and> title (snd (Category_save slugify_fn outcome c)) = title c
   \<and> fst (Category_save slugify_fn outcome c) = outcome
   \<and> slugify ''Test Category'' = ''test-category''"
proof (intro conjI impI)
  show "slugify ''Test Category'' = ''test-category''"
    by code_simp
qed (simp_all add: Category_save_def)

theorem Category_save_slug_witness:
  "slug (snd (Category_save slugify None
      \<lparr>title = ''Test Category'', parent_id = None, slug = ''''\<rparr>)) = ''test-category''
   \<and> slug (snd (Category_save slugify None
      \<lparr>title = ''Test Category'', parent_id = None, slug = ''mine''\<rparr>)) = ''mine''"
proof -
  have a: "slug (snd (Category_save slugify None
      \<lparr>title = ''Test Category'', parent_id = None, slug = ''''\<rparr>)) = ''test-category''"
    using Category_save_slug
      [of "\<lparr>title = ''Test Category'', parent_id = None, slug = ''''\<rparr>" slugify None]
    by simp
  have b: "slug (snd (Category_save slugify None
      \<lparr>title = ''Test Category'', parent_id = None, slug = ''mine''\<rparr>)) = ''mine''"
    using Category_save_slug
      [of "\<lparr>title = ''Test Category'', parent_id = None, slug = ''mine''\<rparr>" slugify None]
    by simp
  from a b show ?thesis by (rule conjI)
qed

section \<open>Saving a media file\<close>

lemma determine_file_type_nonempty:
  "fts \<noteq> [] \<Longrightarrow> \<exists>k. determine_file_type fts name = Inr k"
  by (cases "first_match fts name") (simp_all add: determine_file_type_def)

lemma set_created_fields:
  "file_name (set_created e m) = file_name m"
  "original_file_name (set_created e m) = original_file_name m"
  "file_size (set_created e m) = file_size m"
  "type (set_created e m) = type m"
  by (simp_all add: set_created_def)

lemma set_created_type_update:
  "set_created e (m\<lparr>type := t\<rparr>) = (set_created e m)\<lparr>type := t\<rparr>"
  by (simp add: set_created_def)

lemma read_size_frame:
  assumes "read_size e (m, w) = (x, m', w')"
  shows "file_name m' = file_name m \<and> type m' = type m
         \<and> original_file_name m' = original_file_name m
         \<and> storage w' = storage w \<and> deleted w' = deleted w \<and> written w' = written w"
  using assms by (auto simp: read_size_def split: if_splits sum.splits)

lemma process_image_frame:
  assumes "process_image e w = (x, w')"
  shows "storage w' = storage w \<and> deleted w' = deleted w \<and> logged w' = logged w"
  using assms
  by (auto simp: process_image_def Let_def split: if_splits sum.splits option.splits)

lemma detect_image_frame:
  assumes "detect_image fts e (m, w) = (x, m', w')"
  shows "file_name m' = file_name m \<and> original_file_name m' = original_file_name m
         \<and> file_size m' = file_size m
         \<and> storage w' = storage w \<and> deleted w' = deleted w \<and> logged w' = logged w"
proof -
  obtain y w1 where p: "process_image e w = (y, w1)" by (cases "process_image e w")
  note f = process_image_frame [OF p]
  from assms p f show ?thesis
    by (auto simp: detect_image_def split: if_splits sum.splits option.splits)
qed

lemma save_cases:
  assumes "save fts e m w = r"
  obtains
    (classify) x where "determine_file_type fts (file_name m) = Inl x"
      and "r = (Some x, set_created e m, w)"
  | (size) k x m2 w2 where "determine_file_type fts (file_name m) = Inr k"
      and "read_size e ((set_created e m)\<lparr>type := k\<rparr>, w) = (Some x, m2, w2)"
      and "r = (Some x, m2, w2)"
  | (image) k m2 w2 x m3 w3 where "determine_file_type fts (file_name m) = Inr k"
      and "read_size e ((set_created e m)\<lparr>type := k\<rparr>, w) = (None, m2, w2)"
      and "detect_image fts e (m2, w2) = (Some x, m3, w3)"
      and "r = (Some x, m3, w3)"
  | (stored) k m2 w2 m3 w3 m4 w4 where "determine_file_type fts (file_name m) = Inr k"
      and "read_size e ((set_created e m)\<lparr>type := k\<rparr>, w) = (None, m2, w2)"
      and "detect_image fts e (m2, w2) = (None, m3, w3)"
      and "cleanup (m3, w3) = (m4, w4)"
      and "r = (super_save e, m4, w4)"
proof (cases "determine_file_type fts (file_name m)")
  case (Inl x)
  with assms have "r = (Some x, set_created e m, w)"
    by (simp add: save_def Let_def set_created_fields)
  with Inl show ?thesis by (rule classify)
next
  case (Inr k)
  obtain x2 m2 w2 where rs: "read_size e ((set_created e m)\<lparr>type := k\<rparr>, w) = (x2, m2, w2)"
    by (cases "read_size e ((set_created e m)\<lparr>type := k\<rparr>, w)")
  show ?thesis
  proof (cases x2)
    case (Some x)
    with assms Inr rs have "r = (Some x, m2, w2)"
      by (simp add: save_def Let_def set_created_fields)
    with Inr rs Some show ?thesis by (auto intro: size)
  next
    case None
    obtain x3 m3 w3 where di: "detect_image fts e (m2, w2) = (x3, m3, w3)"
      by (cases "detect_image fts e (m2, w2)")
    show ?thesis
    proof (cases x3)
      case (Some x)
      with assms Inr rs None di have "r = (Some x, m3, w3)"
        by (simp add: save_def Let_def set_created_fields)
      with Inr rs None di Some show ?thesis by (auto intro: image)
    next
      case n3: None
      obtain m4 w4 where cl: "cleanup (m3, w3) = (m4, w4)"
        by (cases "cleanup (m3, w3)")
      with assms Inr rs None di n3 have "r = (super_save e, m4, w4)"
        by (simp add: save_def Let_def set_created_fields)
      with Inr rs None di n3 cl show ?thesis by (auto intro: stored)
    qed
  qed
qed

lemma original_file_name_init:
  "original_file_name (init m0) = (if file_name m0 \<noteq> [] then Some (file_name m0) else None)"
  by (simp add: init_def)

lemma save_reaches_cleanup:
  assumes "save fts e m w = (None, m', w')"
  shows "\<exists>m3 w3. cleanup (m3, w3) = (m', w')
    \<and> file_name m3 = file_name m \<and> original_file_name m3 = original_file_name m
    \<and> storage w3 = storage w \<and> deleted w3 = deleted w"
  using assms
proof (cases rule: save_cases)
  case (stored k m2 w2 m3 w3 m4 w4)
  from read_size_frame [OF stored(2)] detect_image_frame [OF stored(3)] stored(4,5)
  have "cleanup (m3, w3) = (m', w') \<and> file_name m3 = file_name m
    \<and> original_file_name m3 = original_file_name m
    \<and> storage w3 = storage w \<and> deleted w3 = deleted w"
    by (simp add: set_created_fields)
  then show ?thesis by blast
qed simp_all

lemma save_deleted_cases:
  assumes "save fts e m w = (x, m', w')"
  shows "(deleted w' = deleted w \<and> storage w' = storage w)
         \<or> (\<exists>orig. original_file_name m = Some orig \<and> orig \<noteq> [] \<and> file_name m \<noteq> orig
               \<and> deleted w' = deleted w @ [orig] \<and> storage w' = (storage w)(orig := None))"
  using assms
proof (cases rule: save_cases)
  case (classify y)
  then show ?thesis by simp
next
  case (size k y m2 w2)
  from read_size_frame [OF size(2)] size(3) show ?thesis by simp
next
  case (image k m2 w2 y m3 w3)
  from read_size_frame [OF image(2)] detect_image_frame [OF image(3)] image(4)
  show ?thesis by simp
next
  case (stored k m2 w2 m3 w3 m4 w4)
  from read_size_frame [OF stored(2)] detect_image_frame [OF stored(3)] stored(4,5)
  show ?thesis
    by (auto simp: set_created_fields cleanup_def storage_delete_def
        split: option.splits if_splits)
qed

text \<open>
  C3. Let the object carry the original file name that its constructor recorded. When
  a file was stored then and the current name differs, a save that returns deletes the
  original name from the storage once and changes nothing else there. When no file was
  stored at construction, or the name is unchanged, no delete is issued and the storage
  stays as it was, however the save ends. No save issues more than that one delete.
\<close>

theorem cleanup_deletes_original_once:
  assumes "save fts e m w = (x, m', w')"
    and "original_file_name m = original_file_name (init m0)"
  shows "(file_name m0 \<noteq> [] \<and> file_name m \<noteq> file_name m0 \<and> x = None
            \<longrightarrow> deleted w' = deleted w @ [file_name m0]
                \<and> storage w' = (storage w)(file_name m0 := None))
       \<and> (file_name m0 = [] \<or> file_name m = file_name m0
            \<longrightarrow> deleted w' = deleted w \<and> storage w' = storage w)
       \<and> (deleted w' = deleted w \<or> deleted w' = deleted w @ [file_name m0])"
proof (intro conjI)
  show "file_name m0 \<noteq> [] \<and> file_name m \<noteq> file_name m0 \<and> x = None
            \<longrightarrow> deleted w' = deleted w @ [file_name m0]
                \<and> storage w' = (storage w)(file_name m0 := None)"
  proof
    assume h: "file_name m0 \<noteq> [] \<and> file_name m \<noteq> file_name m0 \<and> x = None"
    with assms(1) have s: "save fts e m w = (None, m', w')" by simp
    from h assms(2) have o: "original_file_name m = Some (file_name m0)"
      by (simp add: original_file_name_init)
    from save_reaches_cleanup [OF s] obtain m3 w3 where c: "cleanup (m3, w3) = (m', w')"
      and f: "file_name m3 = file_name m" "original_file_name m3 = original_file_name m"
        "storage w3 = storage w" "deleted w3 = deleted w"
      by blast
    from c f o h
    show "deleted w' = deleted w @ [file_name m0]
        \<and> storage w' = (storage w)(file_name m0 := None)"
      by (auto simp: cleanup_def storage_delete_def)
  qed
next
  show "file_name m0 = [] \<or> file_name m = file_name m0
            \<longrightarrow> deleted w' = deleted w \<and> storage w' = storage w"
  proof
    assume h: "file_name m0 = [] \<or> file_name m = file_name m0"
    with assms(2)
    have "original_file_name m = None \<or> original_file_name m = Some (file_name m)"
      by (auto simp: original_file_name_init)
    with save_deleted_cases [OF assms(1)]
    show "deleted w' = deleted w \<and> storage w' = storage w" by auto
  qed
next
  from save_deleted_cases [OF assms(1)] assms(2)
  show "deleted w' = deleted w \<or> deleted w' = deleted w @ [file_name m0]"
    by (auto simp: original_file_name_init split: if_splits)
qed

theorem cleanup_deletes_original_once_witness:
  "let e = \<lparr>now = 7, size_of_file = Inr 10, path_of_file = Inr ''/media/new.txt'',
             open_file = Inl IOError, open_path = (\<lambda>p. Inl IOError),
             getexif = (\<lambda>i. Inr None), rotate = (\<lambda>i r. Inr (i::nat)),
             image_save = (\<lambda>i p. None), super_save = None\<rparr>;
       m0 = \<lparr>obj_id = Some 1, file_name = ''old.txt'', type = ''txt'', created = Some 5,
             copyright = '''', file_size = Some 3, original_file_name = None\<rparr>;
       w = \<lparr>storage = [''old.txt'' \<mapsto> (1::nat), ''new.txt'' \<mapsto> 2], deleted = [],
            written = [], logged = []\<rparr>;
       r = save (filetypes default_registry) e ((init m0)\<lparr>file_name := ''new.txt''\<rparr>) w;
       n = save (filetypes default_registry) e
             ((init (m0\<lparr>file_name := []\<rparr>))\<lparr>file_name := ''new.txt''\<rparr>) w
   in fst r = None
      \<and> deleted (snd (snd n)) = []
      \<and> deleted (snd (snd r)) = [''old.txt'']
      \<and> storage (snd (snd r)) ''old.txt'' = None
      \<and> storage (snd (snd r)) ''new.txt'' = Some 2"
proof -
  let ?fts = "filetypes default_registry"
  let ?e = "\<lparr>now = 7, size_of_file = Inr 10, path_of_file = Inr ''/media/new.txt'',
             open_file = Inl IOError, open_path = (\<lambda>p. Inl IOError),
             getexif = (\<lambda>i. Inr None), rotate = (\<lambda>i r. Inr (i::nat)),
             image_save = (\<lambda>i p. None), super_save = None\<rparr>"
  let ?fields = "\<lparr>obj_id = Some 1, file_name = ''old.txt'', type = ''txt'', created = Some 5,
             copyright = '''', file_size = Some 3, original_file_name = None\<rparr>"
  let ?w = "\<lparr>storage = [''old.txt'' \<mapsto> (1::nat), ''new.txt'' \<mapsto> 2], deleted = [],
            written = [], logged = []\<rparr> :: (nat, nat) world"
  let ?m = "(init ?fields)\<lparr>file_name := ''new.txt''\<rparr>"
  let ?r = "save ?fts ?e ?m ?w"
  have c: "determine_file_type ?fts ''new.txt'' = Inr ''txt''"
    by code_simp
  have x: "fst ?r = None"
    by (simp add: save_def Let_def set_created_def init_def c read_size_def detect_image_def
        cleanup_def storage_delete_def)
  have s: "?r = (fst ?r, fst (snd ?r), snd (snd ?r))"
    by simp
  have o: "original_file_name ?m = original_file_name (init ?fields)"
    by simp
  from cleanup_deletes_original_once [OF s o] x
  have d: "deleted (snd (snd ?r)) = deleted ?w @ [file_name ?fields]
           \<and> storage (snd (snd ?r)) = (storage ?w)(file_name ?fields := None)"
    by simp
  from d have d1: "deleted (snd (snd ?r)) = [''old.txt'']"
    by simp
  from d have d2: "storage (snd (snd ?r)) ''old.txt'' = None"
    by simp
  from d have d3: "storage (snd (snd ?r)) ''new.txt'' = Some 2"
    by simp
  let ?new = "(init (?fields\<lparr>file_name := []\<rparr>))\<lparr>file_name := ''new.txt''\<rparr>"
  let ?n = "save ?fts ?e ?new ?w"
  have t: "?n = (fst ?n, fst (snd ?n), snd (snd ?n))"
    by simp
  have p: "original_file_name ?new = original_file_name (init (?fields\<lparr>file_name := []\<rparr>))"
    by simp
  from cleanup_deletes_original_once [OF t p]
  have d4: "deleted (snd (snd ?n)) = []"
    by simp
  from x d1 d2 d3 d4 show ?thesis
    unfolding Let_def by blast
qed

lemma cleanup_frame:
  assumes "cleanup (m, w) = (m', w')"
  shows "m' = m \<and> logged w' = logged w \<and> written w' = written w"
  using assms
  by (auto simp: cleanup_def storage_delete_def split: option.splits if_splits)

lemma process_image_env_size:
  "process_image (e\<lparr>size_of_file := v\<rparr>) w = process_image e w"
  by (simp add: process_image_def open_image_def read_exif_def Let_def
      cong: sum.case_cong option.case_cong if_cong)

lemma fst_process_image_world:
  "fst (process_image e w) = fst (process_image e w2)"
  by (simp add: process_image_def Let_def split: sum.splits option.splits)

lemma detect_image_env_size:
  "detect_image fts (e\<lparr>size_of_file := v\<rparr>) s = detect_image fts e s"
  by (cases s) (simp add: detect_image_def process_image_env_size)

lemma fst_detect_image:
  "fst (detect_image fts e (m, w)) =
     (if type m = ''image'' then
        (case fst (process_image e w) of
           None \<Rightarrow> None
         | Some x \<Rightarrow>
             if x = OSError \<or> x = IOError then
               (case determine_file_type fts ''***'' of Inl y \<Rightarrow> Some y | Inr k \<Rightarrow> None)
             else Some x)
      else None)"
  by (simp add: detect_image_def split: prod.splits option.splits sum.splits)

lemma fst_detect_image_indep:
  "type m = type m2 \<Longrightarrow> fst (detect_image fts e (m, w)) = fst (detect_image fts e (m2, w2))"
  using fst_process_image_world [of e w w2] by (simp add: fst_detect_image)

lemma fst_save_after_size:
  assumes "determine_file_type fts (file_name m) = Inr k"
    and "read_size e ((set_created e m)\<lparr>type := k\<rparr>, w) = (None, m2, w2)"
  shows "fst (save fts e m w) =
           (case fst (detect_image fts e (m2, w2)) of Some x \<Rightarrow> Some x | None \<Rightarrow> super_save e)"
  using assms
  by (simp add: save_def Let_def set_created_fields split: prod.splits option.splits)

lemma set_created_env_size:
  "set_created (e\<lparr>size_of_file := v\<rparr>) m = set_created e m"
  by (simp add: set_created_def)

lemma save_size_failure_state:
  assumes "determine_file_type fts (file_name m) = Inr k"
    and "file_name m \<noteq> []" and "size_of_file e = Inl x"
    and "x = OSError \<or> x = IOError \<or> x = ValueError"
    and "save fts e m w = (y, m', w')"
  shows "logged w' = logged w @ [x] \<and> file_size m' = file_size m"
proof -
  have rs: "read_size e ((set_created e m)\<lparr>type := k\<rparr>, w)
              = (None, (set_created e m)\<lparr>type := k\<rparr>, w\<lparr>logged := logged w @ [x]\<rparr>)"
    using assms(2,3,4) by (auto simp: read_size_def set_created_fields)
  from assms(5) show ?thesis
  proof (cases rule: save_cases)
    case (classify z)
    with assms(1) show ?thesis by simp
  next
    case (size k2 z m2 w2)
    with assms(1) rs show ?thesis by simp
  next
    case (image k2 m2 w2 z m3 w3)
    with assms(1) rs have "m2 = (set_created e m)\<lparr>type := k\<rparr>"
      and "w2 = w\<lparr>logged := logged w @ [x]\<rparr>" by simp_all
    with detect_image_frame [OF image(3)] image(4) show ?thesis
      by (simp add: set_created_fields)
  next
    case (stored k2 m2 w2 m3 w3 m4 w4)
    with assms(1) rs have "m2 = (set_created e m)\<lparr>type := k\<rparr>"
      and "w2 = w\<lparr>logged := logged w @ [x]\<rparr>" by simp_all
    with detect_image_frame [OF stored(3)] cleanup_frame [OF stored(4)] stored(5)
    show ?thesis
      by (simp add: set_created_fields)
  qed
qed

text \<open>
  C8, amended. When the object has a file and reading its size raises \<^verbatim>\<open>OSError\<close>,
  \<^verbatim>\<open>IOError\<close> or \<^verbatim>\<open>ValueError\<close>, the exception is logged, the field \<^verbatim>\<open>file_size\<close>
  keeps the value it had before the save, and the save ends as it would have ended had
  the size been read.
\<close>

theorem size_failure_is_logged:
  assumes "fts \<noteq> []" and "file_name m \<noteq> []" and "size_of_file e = Inl x"
    and "x = OSError \<or> x = IOError \<or> x = ValueError"
  shows "logged (snd (snd (save fts e m w))) = logged w @ [x]
       \<and> file_size (fst (snd (save fts e m w))) = file_size m
       \<and> fst (save fts e m w) = fst (save fts (e\<lparr>size_of_file := Inr n\<rparr>) m w)"
proof -
  from assms(1) obtain k where k: "determine_file_type fts (file_name m) = Inr k"
    using determine_file_type_nonempty by blast
  let ?m1 = "(set_created e m)\<lparr>type := k\<rparr>"
  let ?e' = "e\<lparr>size_of_file := Inr n\<rparr>"
  have s: "save fts e m w
             = (fst (save fts e m w), fst (snd (save fts e m w)), snd (snd (save fts e m w)))"
    by simp
  note st = save_size_failure_state [OF k assms(2,3,4) s]
  have rs: "read_size e (?m1, w) = (None, ?m1, w\<lparr>logged := logged w @ [x]\<rparr>)"
    using assms(2,3,4) by (auto simp: read_size_def set_created_fields)
  have rs': "read_size ?e' ((set_created ?e' m)\<lparr>type := k\<rparr>, w)
               = (None, ?m1\<lparr>file_size := Some n\<rparr>, w)"
    using assms(2) by (simp add: read_size_def set_created_fields set_created_env_size)
  have "fst (detect_image fts e (?m1, w\<lparr>logged := logged w @ [x]\<rparr>))
          = fst (detect_image fts e (?m1\<lparr>file_size := Some n\<rparr>, w))"
    by (rule fst_detect_image_indep) simp
  then have "fst (save fts e m w) = fst (save fts ?e' m w)"
    by (simp add: fst_save_after_size [OF k rs] fst_save_after_size [OF k rs']
        detect_image_env_size cong: option.case_cong)
  with st show ?thesis by simp
qed

theorem size_failure_is_logged_witness:
  "let e = \<lparr>now = 7, size_of_file = Inl OSError, path_of_file = Inr ''/media/a.txt'',
             open_file = Inl IOError, open_path = (\<lambda>p. Inl IOError),
             getexif = (\<lambda>i. Inr None), rotate = (\<lambda>i r. Inr (i::nat)),
             image_save = (\<lambda>i p. None), super_save = None\<rparr>;
       m = \<lparr>obj_id = None, file_name = ''a.txt'', type = [], created = None,
            copyright = [], file_size = None, original_file_name = None\<rparr>;
       w = \<lparr>storage = [''a.txt'' \<mapsto> (1::nat)], deleted = [], written = [],
            logged = []\<rparr>;
       r = save (filetypes default_registry) e m w
   in fst r = None \<and> logged (snd (snd r)) = [OSError] \<and> file_size (fst (snd r)) = None"
proof -
  let ?fts = "filetypes default_registry"
  let ?e = "\<lparr>now = 7, size_of_file = Inl OSError, path_of_file = Inr ''/media/a.txt'',
             open_file = Inl IOError, open_path = (\<lambda>p. Inl IOError),
             getexif = (\<lambda>i. Inr None), rotate = (\<lambda>i r. Inr (i::nat)),
             image_save = (\<lambda>i p. None), super_save = None\<rparr>"
  let ?m = "\<lparr>obj_id = None, file_name = ''a.txt'', type = [], created = None,
            copyright = [], file_size = None, original_file_name = None\<rparr>"
  let ?w = "\<lparr>storage = [''a.txt'' \<mapsto> (1::nat)], deleted = [], written = [],
            logged = []\<rparr> :: (nat, nat) world"
  let ?r = "save ?fts ?e ?m ?w"
  have c: "determine_file_type ?fts ''a.txt'' = Inr ''txt''"
    by code_simp
  have a1: "?fts \<noteq> []"
    by (simp add: filetypes_default_registry default_types_def)
  have a2: "file_name ?m \<noteq> []" by simp
  have a3: "size_of_file ?e = Inl OSError" by simp
  have a4: "OSError = OSError \<or> OSError = IOError \<or> OSError = ValueError" by simp
  note t = size_failure_is_logged [OF a1 a2 a3 a4, of ?w 10]
  have x: "fst (save ?fts (?e\<lparr>size_of_file := Inr 10\<rparr>) ?m ?w) = None"
    by (simp add: save_def Let_def set_created_def c read_size_def detect_image_def
        cleanup_def)
  from t x have r1: "fst ?r = None" by simp
  from t have r2: "logged (snd (snd ?r)) = [OSError]" by simp
  from t have r3: "file_size (fst (snd ?r)) = None" by simp
  from r1 r2 r3 show ?thesis
    unfolding Let_def by blast
qed

text \<open>
  C8 as stated fails on an object that had a size before: after the save the field is
  not null, it holds the old value.
\<close>

theorem size_failure_counterexample:
  "save (filetypes default_registry)
     \<lparr>now = 7, size_of_file = Inl OSError, path_of_file = Inr ''/media/a.txt'',
      open_file = Inl IOError, open_path = (\<lambda>p. Inl IOError),
      getexif = (\<lambda>i. Inr None), rotate = (\<lambda>i r. Inr (i::nat)),
      image_save = (\<lambda>i p. None), super_save = None\<rparr>
     \<lparr>obj_id = Some 1, file_name = ''a.txt'', type = ''txt'', created = Some 5,
      copyright = [], file_size = Some 1234, original_file_name = Some ''a.txt''\<rparr>
     \<lparr>storage = (Map.empty :: string \<rightharpoonup> nat), deleted = [], written = [], logged = []\<rparr>
   = (None,
      \<lparr>obj_id = Some 1, file_name = ''a.txt'', type = ''txt'', created = Some 5,
       copyright = [], file_size = Some 1234, original_file_name = Some ''a.txt''\<rparr>,
      \<lparr>storage = Map.empty, deleted = [], written = [], logged = [OSError]\<rparr>)"
proof -
  have c: "determine_file_type (filetypes default_registry) ''a.txt'' = Inr ''txt''"
    by code_simp
  show ?thesis
    by (simp add: save_def Let_def set_created_def c read_size_def detect_image_def
        cleanup_def)
qed

lemma read_size_no_raise:
  assumes "\<forall>x. size_of_file e = Inl x \<longrightarrow> x = OSError \<or> x = IOError \<or> x = ValueError"
  shows "fst (read_size e (m, w)) = None"
  using assms by (auto simp: read_size_def split: sum.splits)

lemma save_stored:
  assumes "determine_file_type fts (file_name m) = Inr k"
    and "read_size e ((set_created e m)\<lparr>type := k\<rparr>, w) = (None, m2, w2)"
    and "detect_image fts e (m2, w2) = (None, m3, w3)"
  shows "save fts e m w = (super_save e, fst (cleanup (m3, w3)), snd (cleanup (m3, w3)))"
  using assms by (simp add: save_def Let_def set_created_fields split: prod.splits)

lemma save_image_step:
  assumes "determine_file_type fts (file_name m) = Inr ''image''"
    and "\<forall>x. size_of_file e = Inl x \<longrightarrow> x = OSError \<or> x = IOError \<or> x = ValueError"
  obtains m2 w2 where "read_size e ((set_created e m)\<lparr>type := ''image''\<rparr>, w) = (None, m2, w2)"
    and "type m2 = ''image''" and "written w2 = written w"
proof -
  obtain y m2 w2
    where rs: "read_size e ((set_created e m)\<lparr>type := ''image''\<rparr>, w) = (y, m2, w2)"
    by (cases "read_size e ((set_created e m)\<lparr>type := ''image''\<rparr>, w)")
  with read_size_no_raise [OF assms(2), of "(set_created e m)\<lparr>type := ''image''\<rparr>" w]
  have "y = None" by simp
  with rs read_size_frame [OF rs] show ?thesis
    by (intro that [of m2 w2]) simp_all
qed

lemma open_image_fails:
  assumes "open_file e = Inl x1" and "x1 = OSError \<or> x1 = IOError"
    and "path_of_file e = Inr p" and "open_path e p = Inl x2"
  shows "open_image e = Inl x2"
  using assms by (auto simp: open_image_def)

lemma process_image_open_fails:
  "open_image e = Inl x \<Longrightarrow> process_image e w = (Some x, w)"
  by (simp add: process_image_def)

lemma determine_default_sentinel:
  "determine_file_type (filetypes default_registry) ''***'' = Inr ''other''"
  by code_simp

text \<open>
  C2. Let the name classify as \<^verbatim>\<open>image\<close> and let \<^verbatim>\<open>Image.open\<close> fail with \<^verbatim>\<open>OSError\<close> or
  \<^verbatim>\<open>IOError\<close> both on the field file and on its path. Then the object gets the key that
  the classifier gives the name \<^verbatim>\<open>***\<close>, nothing is written, and the save ends as the
  inherited save ends: the failure does not reach the caller. With the default registry
  that key is \<^verbatim>\<open>other\<close>.
\<close>

theorem image_open_failure_reclassifies:
  assumes "determine_file_type fts (file_name m) = Inr ''image''"
    and "determine_file_type fts ''***'' = Inr k"
    and "\<forall>x. size_of_file e = Inl x \<longrightarrow> x = OSError \<or> x = IOError \<or> x = ValueError"
    and "open_file e = Inl x1" and "x1 = OSError \<or> x1 = IOError"
    and "path_of_file e = Inr p" and "open_path e p = Inl x2"
    and "x2 = OSError \<or> x2 = IOError"
  shows "fst (save fts e m w) = super_save e
       \<and> type (fst (snd (save fts e m w))) = k
       \<and> written (snd (snd (save fts e m w))) = written w
       \<and> determine_file_type (filetypes default_registry) ''***'' = Inr ''other''"
proof -
  from assms(1,3) obtain m2 w2
    where rs: "read_size e ((set_created e m)\<lparr>type := ''image''\<rparr>, w) = (None, m2, w2)"
      and t: "type m2 = ''image''" and wr: "written w2 = written w"
    by (rule save_image_step)
  have "process_image e w2 = (Some x2, w2)"
    by (rule process_image_open_fails) (rule open_image_fails [OF assms(4,5,6,7)])
  with t assms(2,8) have di: "detect_image fts e (m2, w2) = (None, m2\<lparr>type := k\<rparr>, w2)"
    by (auto simp: detect_image_def)
  obtain m4 w4 where cl: "cleanup (m2\<lparr>type := k\<rparr>, w2) = (m4, w4)"
    by (cases "cleanup (m2\<lparr>type := k\<rparr>, w2)")
  from save_stored [OF assms(1) rs di] cl
  have "save fts e m w = (super_save e, m4, w4)" by simp
  with cleanup_frame [OF cl] wr determine_default_sentinel show ?thesis by simp
qed

theorem image_open_failure_reclassifies_witness:
  "let e = \<lparr>now = 7, size_of_file = Inr 10, path_of_file = Inr ''/media/picture.jpg'',
             open_file = Inl IOError, open_path = (\<lambda>p. Inl IOError),
             getexif = (\<lambda>i. Inr None), rotate = (\<lambda>i r. Inr (i::nat)),
             image_save = (\<lambda>i p. None), super_save = None\<rparr>;
       m = \<lparr>obj_id = None, file_name = ''picture.jpg'', type = [], created = None,
            copyright = [], file_size = None, original_file_name = None\<rparr>;
       w = \<lparr>storage = [''picture.jpg'' \<mapsto> (1::nat)], deleted = [], written = [],
            logged = []\<rparr>;
       r = save (filetypes default_registry) e m w
   in determine_file_type (filetypes default_registry) (file_name m) = Inr ''image''
      \<and> fst r = None \<and> type (fst (snd r)) = ''other'' \<and> written (snd (snd r)) = []"
proof -
  let ?fts = "filetypes default_registry"
  let ?e = "\<lparr>now = 7, size_of_file = Inr 10, path_of_file = Inr ''/media/picture.jpg'',
             open_file = Inl IOError, open_path = (\<lambda>p. Inl IOError),
             getexif = (\<lambda>i. Inr None), rotate = (\<lambda>i r. Inr (i::nat)),
             image_save = (\<lambda>i p. None), super_save = None\<rparr>"
  let ?m = "\<lparr>obj_id = None, file_name = ''picture.jpg'', type = [], created = None,
            copyright = [], file_size = None, original_file_name = None\<rparr>"
  let ?w = "\<lparr>storage = [''picture.jpg'' \<mapsto> (1::nat)], deleted = [], written = [],
            logged = []\<rparr> :: (nat, nat) world"
  let ?r = "save ?fts ?e ?m ?w"
  have c: "determine_file_type ?fts ''picture.jpg'' = Inr ''image''"
    by code_simp
  have a1: "determine_file_type ?fts (file_name ?m) = Inr ''image''"
    using c by simp
  have a2: "determine_file_type ?fts ''***'' = Inr ''other''"
    by code_simp
  have a3: "\<forall>x. size_of_file ?e = Inl x \<longrightarrow> x = OSError \<or> x = IOError \<or> x = ValueError"
    by simp
  have a4: "open_file ?e = Inl IOError" by simp
  have a5: "IOError = OSError \<or> IOError = IOError" by simp
  have a6: "path_of_file ?e = Inr ''/media/picture.jpg''" by simp
  have a7: "open_path ?e ''/media/picture.jpg'' = Inl IOError" by simp
  note t = image_open_failure_reclassifies [OF a1 a2 a3 a4 a5 a6 a7 a5, of ?w]
  from t have r1: "fst ?r = None" by simp
  from t have r2: "type (fst (snd ?r)) = ''other''" by simp
  from t have r3: "written (snd (snd ?r)) = []" by simp
  from a1 r1 r2 r3 show ?thesis
    unfolding Let_def by blast
qed

lemma process_image_readable:
  assumes "open_image e = Inr img" and "read_exif e img = Inr ex"
    and "rotation = (case ex of None \<Rightarrow> 0 | Some exif \<Rightarrow> exif_rotation exif)"
    and "rotation \<noteq> 0 \<longrightarrow>
           rotate e img rotation = Inr img' \<and> path_of_file e = Inr p
           \<and> image_save e img' p = None"
  shows "process_image e w =
           (None, if rotation \<noteq> 0 then w\<lparr>written := written w @ [(p, img')]\<rparr> else w)"
proof (cases ex)
  case None
  with assms show ?thesis by (simp add: process_image_def)
next
  case (Some exif)
  show ?thesis
  proof (cases "exif = []")
    case True
    with Some assms show ?thesis by (simp add: process_image_def exif_rotation_def)
  next
    case False
    with Some assms show ?thesis by (simp add: process_image_def Let_def)
  qed
qed

text \<open>
  C4. The orientation, the value under tag 274, gives the rotation: 3 gives 180, 6 gives
  270, 8 gives 90, anything else or no tag gives none; no EXIF data gives none. During
  the save of an image that opens and whose calls for rotating and writing succeed, the
  rotated image is written to the path of the file when the rotation is not zero, and
  nothing is written when it is zero. The type stays \<^verbatim>\<open>image\<close>.
\<close>

theorem exif_orientation_rotation:
  assumes "determine_file_type fts (file_name m) = Inr ''image''"
    and "\<forall>x. size_of_file e = Inl x \<longrightarrow> x = OSError \<or> x = IOError \<or> x = ValueError"
    and "open_image e = Inr img" and "read_exif e img = Inr ex"
    and "rotation = (case ex of None \<Rightarrow> 0 | Some exif \<Rightarrow> exif_rotation exif)"
    and "rotation \<noteq> 0 \<longrightarrow>
           rotate e img rotation = Inr img' \<and> path_of_file e = Inr p
           \<and> image_save e img' p = None"
  shows "written (snd (snd (save fts e m w)))
           = written w @ (if rotation \<noteq> 0 then [(p, img')] else [])
       \<and> type (fst (snd (save fts e m w))) = ''image''
       \<and> fst (save fts e m w) = super_save e
       \<and> (map_of d 274 = Some 3 \<longrightarrow> exif_rotation d = 180)
       \<and> (map_of d 274 = Some 6 \<longrightarrow> exif_rotation d = 270)
       \<and> (map_of d 274 = Some 8 \<longrightarrow> exif_rotation d = 90)
       \<and> (map_of d 274 \<noteq> Some 3 \<and> map_of d 274 \<noteq> Some 6 \<and> map_of d 274 \<noteq> Some 8
            \<longrightarrow> exif_rotation d = 0)"
proof -
  from assms(1,2) obtain m2 w2
    where rs: "read_size e ((set_created e m)\<lparr>type := ''image''\<rparr>, w) = (None, m2, w2)"
      and t: "type m2 = ''image''" and wr: "written w2 = written w"
    by (rule save_image_step)
  let ?w3 = "if rotation \<noteq> 0 then w2\<lparr>written := written w2 @ [(p, img')]\<rparr> else w2"
  have "process_image e w2 = (None, ?w3)"
    by (rule process_image_readable [OF assms(3,4,5,6)])
  with t have di: "detect_image fts e (m2, w2) = (None, m2, ?w3)"
    by (simp add: detect_image_def)
  obtain m4 w4 where cl: "cleanup (m2, ?w3) = (m4, w4)"
    by (cases "cleanup (m2, ?w3)")
  from save_stored [OF assms(1) rs di] cl
  have "save fts e m w = (super_save e, m4, w4)" by simp
  with cleanup_frame [OF cl] wr t
  have "written (snd (snd (save fts e m w)))
           = written w @ (if rotation \<noteq> 0 then [(p, img')] else [])
       \<and> type (fst (snd (save fts e m w))) = ''image''
       \<and> fst (save fts e m w) = super_save e"
    by simp
  then show ?thesis by (simp add: exif_rotation_def)
qed

theorem exif_orientation_rotation_witness:
  "let e = \<lparr>now = 7, size_of_file = Inr 10, path_of_file = Inr ''/media/a.jpg'',
             open_file = Inr (1::nat), open_path = (\<lambda>p. Inl IOError),
             getexif = (\<lambda>i. Inr (Some [(271, 1), (274, 6)])),
             rotate = (\<lambda>i r. Inr (i + r)),
             image_save = (\<lambda>i p. None), super_save = None\<rparr>;
       m = \<lparr>obj_id = None, file_name = ''a.jpg'', type = [], created = None,
            copyright = [], file_size = None, original_file_name = None\<rparr>;
       w = \<lparr>storage = [''a.jpg'' \<mapsto> (1::nat)], deleted = [], written = [],
            logged = []\<rparr>;
       r = save (filetypes default_registry) e m w
   in fst r = None \<and> type (fst (snd r)) = ''image''
      \<and> written (snd (snd r)) = [(''/media/a.jpg'', 271)]"
proof -
  let ?fts = "filetypes default_registry"
  let ?e = "\<lparr>now = 7, size_of_file = Inr 10, path_of_file = Inr ''/media/a.jpg'',
             open_file = Inr (1::nat), open_path = (\<lambda>p. Inl IOError),
             getexif = (\<lambda>i. Inr (Some [(271, 1), (274, 6)])),
             rotate = (\<lambda>i r. Inr (i + r)),
             image_save = (\<lambda>i p. None), super_save = None\<rparr>"
  let ?m = "\<lparr>obj_id = None, file_name = ''a.jpg'', type = [], created = None,
            copyright = [], file_size = None, original_file_name = None\<rparr>"
  let ?w = "\<lparr>storage = [''a.jpg'' \<mapsto> (1::nat)], deleted = [], written = [],
            logged = []\<rparr> :: (nat, nat) world"
  let ?r = "save ?fts ?e ?m ?w"
  have c: "determine_file_type ?fts ''a.jpg'' = Inr ''image''"
    by code_simp
  have a1: "determine_file_type ?fts (file_name ?m) = Inr ''image''"
    using c by simp
  have a2: "\<forall>x. size_of_file ?e = Inl x \<longrightarrow> x = OSError \<or> x = IOError \<or> x = ValueError"
    by simp
  have a3: "open_image ?e = Inr 1"
    by (simp add: open_image_def)
  have a4: "read_exif ?e 1 = Inr (Some [(271, 1), (274, 6)])"
    by (simp add: read_exif_def)
  have a5: "(270::nat) = (case Some [(271, 1), (274, 6)] of None \<Rightarrow> 0
              | Some exif \<Rightarrow> exif_rotation exif)"
    by (simp add: exif_rotation_def)
  have a6: "(270::nat) \<noteq> 0 \<longrightarrow>
           rotate ?e 1 270 = Inr 271 \<and> path_of_file ?e = Inr ''/media/a.jpg''
           \<and> image_save ?e 271 ''/media/a.jpg'' = None"
    by simp
  note t = exif_orientation_rotation [OF a1 a2 a3 a4 a5 a6, of ?w]
  from t have r1: "fst ?r = None" by simp
  from t have r2: "type (fst (snd ?r)) = ''image''" by simp
  from t have r3: "written (snd (snd ?r)) = [(''/media/a.jpg'', 271)]" by simp
  from r1 r2 r3 show ?thesis
    unfolding Let_def by blast
qed

lemma detect_image_type:
  assumes "detect_image fts e (m, w) = (y, m', w')"
  shows "type m' = type m
         \<or> (type m = ''image''
             \<and> (fst (process_image e w) = Some OSError \<or> fst (process_image e w) = Some IOError)
             \<and> determine_file_type fts ''***'' = Inr (type m') \<and> y = None)"
proof -
  obtain z w1 where p: "process_image e w = (z, w1)" by (cases "process_image e w")
  with assms show ?thesis
    by (auto simp: detect_image_def split: if_splits option.splits sum.splits)
qed

lemma detect_image_reclassified:
  assumes "detect_image fts e (m, w) = (None, m', w')" and "type m = ''image''"
    and "fst (process_image e w) = Some OSError \<or> fst (process_image e w) = Some IOError"
  shows "determine_file_type fts ''***'' = Inr (type m')"
proof -
  obtain z w1 where p: "process_image e w = (z, w1)" by (cases "process_image e w")
  with assms show ?thesis
    by (auto simp: detect_image_def split: if_splits option.splits sum.splits)
qed

lemma save_type_cases:
  assumes "determine_file_type fts (file_name m) = Inr k"
    and "save fts e m w = (y, m', w')"
  shows "type m' = k
         \<or> (k = ''image''
             \<and> (fst (process_image e w) = Some OSError \<or> fst (process_image e w) = Some IOError)
             \<and> determine_file_type fts ''***'' = Inr (type m'))"
  using assms(2)
proof (cases rule: save_cases)
  case (classify x)
  with assms(1) show ?thesis by simp
next
  case (size k2 x m2 w2)
  with assms(1) read_size_frame [OF size(2)] show ?thesis by simp
next
  case (image k2 m2 w2 x m3 w3)
  from assms(1) image(1) have k2: "k2 = k" by simp
  from read_size_frame [OF image(2)] k2 have t2: "type m2 = k" by simp
  from detect_image_type [OF image(3)] t2 image(4)
    fst_process_image_world [of e w2 w]
  show ?thesis by auto
next
  case (stored k2 m2 w2 m3 w3 m4 w4)
  from assms(1) stored(1) have k2: "k2 = k" by simp
  from read_size_frame [OF stored(2)] k2 have t2: "type m2 = k" by simp
  from detect_image_type [OF stored(3)] t2 cleanup_frame [OF stored(4)] stored(5)
    fst_process_image_world [of e w2 w]
  show ?thesis by auto
qed

lemma save_type_reclassified:
  assumes "determine_file_type fts (file_name m) = Inr ''image''"
    and "save fts e m w = (None, m', w')"
    and "fst (process_image e w) = Some OSError \<or> fst (process_image e w) = Some IOError"
  shows "determine_file_type fts ''***'' = Inr (type m')"
  using assms(2)
proof (cases rule: save_cases)
  case (stored k2 m2 w2 m3 w3 m4 w4)
  from assms(1) stored(1) have k2: "k2 = ''image''" by simp
  from read_size_frame [OF stored(2)] k2 have t2: "type m2 = ''image''" by simp
  from assms(3) fst_process_image_world [of e w2 w]
  have "fst (process_image e w2) = Some OSError \<or> fst (process_image e w2) = Some IOError"
    by simp
  from detect_image_reclassified [OF stored(3) t2 this] cleanup_frame [OF stored(4)] stored(5)
  show ?thesis by simp
qed (use assms(1) in simp_all)

lemma save_file_name:
  assumes "save fts e m w = (y, m', w')"
  shows "file_name m' = file_name m"
  using assms
proof (cases rule: save_cases)
  case (classify x)
  then show ?thesis by (simp add: set_created_fields)
next
  case (size k2 x m2 w2)
  with read_size_frame [OF size(2)] show ?thesis by (simp add: set_created_fields)
next
  case (image k2 m2 w2 x m3 w3)
  with read_size_frame [OF image(2)] detect_image_frame [OF image(3)]
  show ?thesis by (simp add: set_created_fields)
next
  case (stored k2 m2 w2 m3 w3 m4 w4)
  with read_size_frame [OF stored(2)] detect_image_frame [OF stored(3)]
    cleanup_frame [OF stored(4)]
  show ?thesis by (simp add: set_created_fields)
qed

text \<open>
  C5, amended. Let the classifier give the current file name the key \<open>k\<close>. After the
  save the type is \<open>k\<close>, except when \<open>k\<close> is \<^verbatim>\<open>image\<close> and handling the image raised
  \<^verbatim>\<open>OSError\<close> or \<^verbatim>\<open>IOError\<close>: then a save that returns leaves the key that the
  classifier gives the name \<^verbatim>\<open>***\<close>. The save does not change the file name, and the
  value that the type held before the save has no influence on the result.
\<close>

theorem type_rederived_on_save:
  assumes "determine_file_type fts (file_name m) = Inr k"
  shows "(type (fst (snd (save fts e m w))) = k
          \<or> (k = ''image''
              \<and> (fst (process_image e w) = Some OSError
                  \<or> fst (process_image e w) = Some IOError)
              \<and> determine_file_type fts ''***'' = Inr (type (fst (snd (save fts e m w))))))
       \<and> (k = ''image'' \<and> fst (save fts e m w) = None
            \<and> (fst (process_image e w) = Some OSError
                \<or> fst (process_image e w) = Some IOError)
          \<longrightarrow> determine_file_type fts ''***'' = Inr (type (fst (snd (save fts e m w)))))
       \<and> file_name (fst (snd (save fts e m w))) = file_name m
       \<and> save fts e (m\<lparr>type := t\<rparr>) w = save fts e m w"
proof (intro conjI)
  have s: "save fts e m w
             = (fst (save fts e m w), fst (snd (save fts e m w)), snd (snd (save fts e m w)))"
    by simp
  show "type (fst (snd (save fts e m w))) = k
          \<or> (k = ''image''
              \<and> (fst (process_image e w) = Some OSError
                  \<or> fst (process_image e w) = Some IOError)
              \<and> determine_file_type fts ''***'' = Inr (type (fst (snd (save fts e m w)))))"
    by (rule save_type_cases [OF assms s])
  show "k = ''image'' \<and> fst (save fts e m w) = None
            \<and> (fst (process_image e w) = Some OSError
                \<or> fst (process_image e w) = Some IOError)
          \<longrightarrow> determine_file_type fts ''***'' = Inr (type (fst (snd (save fts e m w))))"
  proof
    assume h: "k = ''image'' \<and> fst (save fts e m w) = None
            \<and> (fst (process_image e w) = Some OSError
                \<or> fst (process_image e w) = Some IOError)"
    with s have s': "save fts e m w
             = (None, fst (snd (save fts e m w)), snd (snd (save fts e m w)))"
      by simp
    from h assms have a: "determine_file_type fts (file_name m) = Inr ''image''" by simp
    from h show "determine_file_type fts ''***'' = Inr (type (fst (snd (save fts e m w))))"
      by (intro save_type_reclassified [OF a s']) simp
  qed
  show "file_name (fst (snd (save fts e m w))) = file_name m"
    by (rule save_file_name [OF s])
  show "save fts e (m\<lparr>type := t\<rparr>) w = save fts e m w"
    using assms by (simp add: save_def Let_def set_created_type_update set_created_fields)
qed

theorem type_rederived_on_save_witness:
  "let e = \<lparr>now = 7, size_of_file = Inr 10, path_of_file = Inr ''/media/picture.jpg'',
             open_file = Inl IOError, open_path = (\<lambda>p. Inl IOError),
             getexif = (\<lambda>i. Inr None), rotate = (\<lambda>i r. Inr (i::nat)),
             image_save = (\<lambda>i p. None), super_save = None\<rparr>;
       m = \<lparr>obj_id = Some 1, file_name = ''picture.jpg'', type = ''pdf'', created = Some 5,
            copyright = [], file_size = None, original_file_name = Some ''picture.jpg''\<rparr>;
       w = \<lparr>storage = [''picture.jpg'' \<mapsto> (1::nat)], deleted = [], written = [],
            logged = []\<rparr>;
       r = save (filetypes default_registry) e m w;
       q = save (filetypes default_registry) e (m\<lparr>file_name := ''a.txt''\<rparr>) w
   in fst r = None \<and> type (fst (snd r)) = ''other'' \<and> type (fst (snd q)) = ''txt''"
proof -
  let ?fts = "filetypes default_registry"
  let ?e = "\<lparr>now = 7, size_of_file = Inr 10, path_of_file = Inr ''/media/picture.jpg'',
             open_file = Inl IOError, open_path = (\<lambda>p. Inl IOError),
             getexif = (\<lambda>i. Inr None), rotate = (\<lambda>i r. Inr (i::nat)),
             image_save = (\<lambda>i p. None), super_save = None\<rparr>"
  let ?m = "\<lparr>obj_id = Some 1, file_name = ''picture.jpg'', type = ''pdf'', created = Some 5,
            copyright = [], file_size = None, original_file_name = Some ''picture.jpg''\<rparr>"
  let ?w = "\<lparr>storage = [''picture.jpg'' \<mapsto> (1::nat)], deleted = [], written = [],
            logged = []\<rparr> :: (nat, nat) world"
  let ?r = "save ?fts ?e ?m ?w"
  let ?q = "save ?fts ?e (?m\<lparr>file_name := ''a.txt''\<rparr>) ?w"
  have c: "determine_file_type ?fts ''picture.jpg'' = Inr ''image''"
    by code_simp
  have c': "determine_file_type ?fts ''a.txt'' = Inr ''txt''"
    by code_simp
  have a1: "determine_file_type ?fts (file_name ?m) = Inr ''image''"
    using c by simp
  have a1': "determine_file_type ?fts (file_name (?m\<lparr>file_name := ''a.txt''\<rparr>)) = Inr ''txt''"
    using c' by simp
  have a2: "determine_file_type ?fts ''***'' = Inr ''other''"
    by code_simp
  have p: "fst (process_image ?e ?w) = Some IOError"
    by (simp add: process_image_def open_image_def)
  have x: "fst ?r = None"
    by (simp add: save_def Let_def set_created_def c a2 read_size_def detect_image_def
        process_image_def open_image_def cleanup_def)
  from type_rederived_on_save [OF a1, of ?e ?w] x p a2
  have r2: "type (fst (snd ?r)) = ''other''" by simp
  from type_rederived_on_save [OF a1', of ?e ?w]
  have r3: "type (fst (snd ?q)) = ''txt''" by simp
  from x r2 r3 show ?thesis
    unfolding Let_def by blast
qed

text \<open>
  C5 as stated fails on a name that classifies as \<^verbatim>\<open>image\<close> when the file does not open
  as an image: the save leaves the type \<^verbatim>\<open>other\<close>, which is not the classification of
  the current file name.
\<close>

theorem type_rederived_counterexample:
  "save (filetypes default_registry)
     \<lparr>now = 7, size_of_file = Inr 10, path_of_file = Inr ''/media/picture.jpg'',
      open_file = Inl IOError, open_path = (\<lambda>p. Inl IOError),
      getexif = (\<lambda>i. Inr None), rotate = (\<lambda>i r. Inr (i::nat)),
      image_save = (\<lambda>i p. None), super_save = None\<rparr>
     \<lparr>obj_id = Some 1, file_name = ''picture.jpg'', type = ''image'', created = Some 5,
      copyright = [], file_size = None, original_file_name = Some ''picture.jpg''\<rparr>
     \<lparr>storage = (Map.empty :: string \<rightharpoonup> nat), deleted = [], written = [], logged = []\<rparr>
   = (None,
      \<lparr>obj_id = Some 1, file_name = ''picture.jpg'', type = ''other'', created = Some 5,
       copyright = [], file_size = Some 10, original_file_name = Some ''picture.jpg''\<rparr>,
      \<lparr>storage = Map.empty, deleted = [], written = [], logged = []\<rparr>)
   \<and> determine_file_type (filetypes default_registry) ''picture.jpg'' = Inr ''image''"
proof -
  have c: "determine_file_type (filetypes default_registry) ''picture.jpg'' = Inr ''image''"
    by code_simp
  have a: "determine_file_type (filetypes default_registry) ''***'' = Inr ''other''"
    by code_simp
  show ?thesis
    by (simp add: save_def Let_def set_created_def c a read_size_def detect_image_def
        process_image_def open_image_def cleanup_def)
qed

end
